theory Spec2Isabelle
  imports Main
begin

section \<open>The study-guide page script (src/aws/script.js)\<close>

text \<open>
  The script is event wiring over a browser page. The embedding keeps the page as an
  explicit record that every handler takes and returns. An element the script looks up
  and may not find is an \<open>option\<close>; a lookup by id or by attribute value is a map from
  the value to the element found. Strings are \<open>string\<close>.

  The lookups of the script (\<open>getElementById\<close>, the selectors for grids and nav links)
  are taken to find the elements of the static markup: the fragments written into a
  grid bring cards with their expand buttons, not new grids, section blocks or nav links.
\<close>

subsection \<open>JSON values\<close>

text \<open>
  The value \<open>res.json()\<close> yields. A number is carried as the text JavaScript prints for
  it (no arithmetic is done on content). \<open>JObj\<close> lists the properties of an object
  in the order \<open>Object.entries\<close> enumerates them; an object has each key once.
\<close>

datatype json =
    JNull
  | JBool bool
  | JNum string
  | JStr string
  | JArr "json list"
  | JObj "(string \<times> json) list"

fun js_truthy :: "json \<Rightarrow> bool" where
  "js_truthy JNull = False"
| "js_truthy (JBool b) = b"
| "js_truthy (JNum s) = (s \<noteq> ''0'')"
| "js_truthy (JStr s) = (s \<noteq> [])"
| "js_truthy (JArr xs) = True"
| "js_truthy (JObj es) = True"

fun js_typeof :: "json \<Rightarrow> string" where
  "js_typeof JNull = ''object''"
| "js_typeof (JBool b) = ''boolean''"
| "js_typeof (JNum s) = ''number''"
| "js_typeof (JStr s) = ''string''"
| "js_typeof (JArr xs) = ''object''"
| "js_typeof (JObj es) = ''object''"

fun join_with :: "string \<Rightarrow> string list \<Rightarrow> string" where
  "join_with sep [] = []"
| "join_with sep [x] = x"
| "join_with sep (x # y # ys) = x @ sep @ join_with sep (y # ys)"

datatype js_error = Error string | TypeError | SyntaxError | SecurityError

text \<open>The strings of a list of results, or the first error in it.\<close>

fun collect_strings :: "(js_error + string) list \<Rightarrow> js_error + string list" where
  "collect_strings [] = Inr []"
| "collect_strings (Inl e # rs) = Inl e"
| "collect_strings (Inr s # rs) =
     (case collect_strings rs of Inl e \<Rightarrow> Inl e | Inr ss \<Rightarrow> Inr (s # ss))"

text \<open>
  \<open>ToString\<close> of a value, as \<open>Array.prototype.join\<close> applies it to the elements of an
  array: \<open>null\<close> elements give the empty string, a nested array is joined with commas.
  An object is converted by its \<open>toString\<close> method: the inherited one prints
  \<open>[object Object]\<close>; an own property \<open>toString\<close> of a parsed object is never a
  function, the inherited \<open>valueOf\<close> returns the object itself, and the conversion
  throws a \<open>TypeError\<close>.
\<close>

fun js_ToString :: "json \<Rightarrow> js_error + string" where
  "js_ToString JNull = Inr ''null''"
| "js_ToString (JBool b) = Inr (if b then ''true'' else ''false'')"
| "js_ToString (JNum s) = Inr s"
| "js_ToString (JStr s) = Inr s"
| "js_ToString (JArr xs) =
     map_sum id (join_with '','')
       (collect_strings (map (\<lambda>x. if x = JNull then Inr [] else js_ToString x) xs))"
| "js_ToString (JObj es) =
     (if ''toString'' \<in> fst ` set es then Inl TypeError else Inr ''[object Object]'')"

definition Array_join :: "string \<Rightarrow> json list \<Rightarrow> js_error + string" where
  "Array_join sep xs =
     map_sum id (join_with sep)
       (collect_strings (map (\<lambda>x. if x = JNull then Inr [] else js_ToString x) xs))"

fun decimal :: "nat \<Rightarrow> string" where
  "decimal n =
     (if n < 10 then [''0123456789'' ! n]
      else decimal (n div 10) @ [''0123456789'' ! (n mod 10)])"

text \<open>
  \<open>Object.entries\<close>: the properties of an object, the indexed elements of an array.
  \<open>populateGrids\<close> calls it on values of type \<open>object\<close> other than \<open>null\<close> only.
\<close>

fun Object_entries :: "json \<Rightarrow> (string \<times> json) list" where
  "Object_entries (JObj es) = es"
| "Object_entries (JArr xs) = zip (map decimal [0..<length xs]) xs"
| "Object_entries v = []"

subsection \<open>The page\<close>

text \<open>An element with a class list and the \<open>hidden\<close> property: a section block, a nav link.\<close>

record element =
  classes :: "string set"
  hidden :: bool

definition classList_toggle :: "string \<Rightarrow> bool \<Rightarrow> string set \<Rightarrow> string set" where
  "classList_toggle token force cs = (if force then insert token cs else cs - {token})"

text \<open>
  An expand button with the neighbourhood \<open>toggleResource\<close> reads: the inline
  \<open>style.display\<close> of its previous sibling (\<open>fullEl\<close>) and of the sibling before that
  (\<open>shortEl\<close>), and the class list of the closest \<open>.resource-card\<close> ancestor
  (\<open>card_el\<close>, the \<open>card\<close> of the script); each is
  \<open>None\<close> when the element is missing. The markup has one button per card.
\<close>

record expand_btn =
  card_el :: "string set option"
  shortEl :: "string option"
  fullEl :: "string option"
  textContent :: string
  aria_expanded :: "string option"

text \<open>
  A resource grid: the markup last assigned to \<open>innerHTML\<close> and the expand buttons
  inside it.
\<close>

record grid =
  innerHTML :: string
  btns :: "expand_btn list"

record url =
  pathname :: string
  search :: string
  hash :: string

record image =
  src :: string
  alt :: string

text \<open>The modal with what \<open>modal?.querySelector('.modal-close')\<close> finds in it:
  \<open>Some focused\<close> when the close control exists.\<close>

record modal_el =
  modal_hidden :: bool
  close_focused :: "bool option"

record page =
  contentData :: json
  grids :: "string \<rightharpoonup> grid"
  other_btns :: "expand_btn list"
  blocks :: "string \<rightharpoonup> element"
  nav :: "(string \<rightharpoonup> element) option"
  main :: "nat option"
  location :: url
  history_back :: "url list"
  history_forward :: "url list"
  modal :: "modal_el option"
  modalImg :: "image option"
  modalCaption :: "string option"
  body_overflow :: string
  console :: "js_error list"

text \<open>
  \<open>grids\<close> maps a \<open>data-section\<close> value to the first \<open>.resource-grid\<close> carrying it,
  \<open>other_btns\<close> are the expand buttons outside those grids, \<open>blocks\<close> maps an element
  id to the element, \<open>nav\<close> maps a \<open>data-section\<close> value to the first \<open>.nav-link\<close> in
  the nav carrying it, \<open>main\<close> is the \<open>scrollTop\<close> of the main container. The session
  history is the current entry (\<open>location\<close>) between the entries behind and ahead of it.
\<close>

text \<open>
  Two algorithms of the browser that the script calls and does not contain are
  parameters: the HTML parser, as the expand buttons it builds from a markup string, and
  the resolution of the URL given to \<open>replaceState\<close>, as the location that results
  from the URL string, or \<open>None\<close> when the string does not parse to a URL of the
  document's origin.
\<close>

record browser =
  parse_btns :: "string \<Rightarrow> expand_btn list"
  parse_url :: "string \<Rightarrow> url option"

text \<open>
  What a handler does: it returns, or it throws with the page as changed so far.
  \<open>Unmodelled\<close> is the result when the script builds a selector that the embedding does
  not interpret (see \<open>selector_safe\<close>); it holds the page before that query.
\<close>

datatype outcome = Completed page | Threw js_error page | Unmodelled page

fun page_of :: "outcome \<Rightarrow> page" where
  "page_of (Completed st) = st"
| "page_of (Threw e st) = st"
| "page_of (Unmodelled st) = st"

definition SECTION_IDS :: "string list" where
  "SECTION_IDS =
     [''compute'', ''networking'', ''storage'', ''database'',
      ''serverless'', ''analytics'', ''security'', ''devops'', ''cost'']"

definition DEFAULT_SECTION :: string where
  "DEFAULT_SECTION = ''compute''"

subsection \<open>Section navigation\<close>

text \<open>The element id \<open>block-${id}\<close> of a section block.\<close>

definition block_id :: "string \<Rightarrow> string" where
  "block_id sid = ''block-'' @ sid"

definition nav_querySelector :: "page \<Rightarrow> string \<Rightarrow> element option" where
  "nav_querySelector st sid = (case nav st of None \<Rightarrow> None | Some links \<Rightarrow> links sid)"

definition set_nav_link :: "string \<Rightarrow> element \<Rightarrow> page \<Rightarrow> page" where
  "set_nav_link sid link st =
     (case nav st of None \<Rightarrow> st | Some links \<Rightarrow> st\<lparr>nav := Some (links(sid \<mapsto> link))\<rparr>)"

text \<open>The body of the \<open>forEach\<close> of \<open>showSection\<close>, for one identifier.\<close>

definition show_step :: "string \<Rightarrow> string \<Rightarrow> page \<Rightarrow> page" where
  "show_step sectionId sid st =
     (let block = blocks st (block_id sid);
          link = nav_querySelector st sid
      in case block of
           None \<Rightarrow> st
         | Some b \<Rightarrow>
             let visible = (sid = sectionId);
                 st1 = st\<lparr>blocks := (blocks st)(block_id sid \<mapsto>
                          b\<lparr>classes := classList_toggle ''is-visible'' visible (classes b),
                            hidden := \<not> visible\<rparr>)\<rparr>
             in case link of
                  None \<Rightarrow> st1
                | Some l \<Rightarrow>
                    set_nav_link sid
                      (l\<lparr>classes := classList_toggle ''active'' visible (classes l)\<rparr>) st1)"

text \<open>
  \<open>history.replaceState(null, '', url)\<close>: the current entry changes, no entry is added.
  It throws a \<open>SecurityError\<close>, and changes nothing, when the URL does not resolve to one
  of the document's origin.
\<close>

definition replaceState :: "browser \<Rightarrow> string \<Rightarrow> page \<Rightarrow> js_error + page" where
  "replaceState B u st =
     (case parse_url B u of
        None \<Rightarrow> Inl SecurityError
      | Some l \<Rightarrow> Inr (st\<lparr>location := l\<rparr>))"

definition showSection :: "browser \<Rightarrow> string \<Rightarrow> bool \<Rightarrow> page \<Rightarrow> outcome" where
  "showSection B sectionId updateHash st =
     (let st1 = fold (show_step sectionId) SECTION_IDS st;
          r = (if updateHash then
                 (let u = pathname (location st1) @ ''#'' @ sectionId
                  in if hash (location st1) \<noteq> ''#'' @ sectionId
                     then replaceState B u st1 else Inr st1)
               else Inr st1)
      in case r of
           Inl e \<Rightarrow> Threw e st1
         | Inr st2 \<Rightarrow>
             Completed
               (if main st2 \<noteq> None \<and> sectionId \<noteq> [] then st2\<lparr>main := Some 0\<rparr> else st2))"

text \<open>The \<open>hashchange\<close> listener (the \<open>load\<close> listener has the same body).\<close>

definition on_hashchange :: "browser \<Rightarrow> page \<Rightarrow> outcome" where
  "on_hashchange B st =
     (let h = drop 1 (hash (location st))
      in if h \<in> set SECTION_IDS then showSection B h False st else Completed st)"

text \<open>The sections whose block exists and is not hidden.\<close>

definition visible_sections :: "page \<Rightarrow> string list" where
  "visible_sections st =
     filter (\<lambda>sid. case blocks st (block_id sid) of None \<Rightarrow> False | Some b \<Rightarrow> \<not> hidden b)
       SECTION_IDS"

subsection \<open>Content\<close>

text \<open>
  \<open>populateGrids\<close> puts the key of each entry between double quotes in an attribute
  selector. A key without a quote, a backslash, NUL or a newline character is the value
  of that CSS string, and the selector finds the first grid whose \<open>data-section\<close> is
  the key.
\<close>

definition selector_safe :: "string \<Rightarrow> bool" where
  "selector_safe s =
     list_all (\<lambda>c. c \<notin> set [CHR 0x00, CHR 0x0A, CHR 0x0C, CHR 0x0D, CHR 0x22, CHR 0x5C]) s"

definition alnum :: "char \<Rightarrow> bool" where
  "alnum c =
     (c \<in> set ''abcdefghijklmnopqrstuvwxyzABCDEFGHIJKLMNOPQRSTUVWXYZ0123456789'')"

text \<open>
  A double quote in the key ends the CSS string. When the key is plain up to its first
  double quote and only letters and digits (or nothing) follow it, the brackets of the
  attribute selector hold, after the value, a token that is not the closing bracket and
  then a second string: the selector is invalid and \<open>querySelector\<close> throws a
  \<open>SyntaxError\<close>. For the other keys the selector is read by the CSS grammar (it may be
  invalid, or select another element); the embedding does not interpret it.
\<close>

definition selector_invalid :: "string \<Rightarrow> bool" where
  "selector_invalid s =
     (case dropWhile (\<lambda>c. c \<noteq> CHR 0x22) s of
        [] \<Rightarrow> False
      | q # rest \<Rightarrow>
          selector_safe (takeWhile (\<lambda>c. c \<noteq> CHR 0x22) s) \<and> list_all alnum rest)"

definition set_innerHTML :: "browser \<Rightarrow> string \<Rightarrow> grid \<Rightarrow> grid" where
  "set_innerHTML B html g = g\<lparr>innerHTML := html, btns := parse_btns B html\<rparr>"

text \<open>The body of the \<open>for ... of Object.entries(contentData)\<close> loop, for one entry.
  \<open>items.join('')\<close> is evaluated only when the grid exists and \<open>items\<close> is an array.\<close>

definition populate_entry :: "browser \<Rightarrow> string \<Rightarrow> json \<Rightarrow> page \<Rightarrow> outcome" where
  "populate_entry B section items st =
     (if selector_safe section then
        (case (grids st section, items) of
           (Some g, JArr xs) \<Rightarrow>
             (case Array_join [] xs of
                Inl e \<Rightarrow> Threw e st
              | Inr html \<Rightarrow>
                  Completed (st\<lparr>grids := (grids st)(section \<mapsto> set_innerHTML B html g)\<rparr>))
         | _ \<Rightarrow> Completed st)
      else if selector_invalid section then Threw SyntaxError st
      else Unmodelled st)"

text \<open>The loop: it goes on to the next entry unless the body throws.\<close>

fun populate_entries :: "browser \<Rightarrow> (string \<times> json) list \<Rightarrow> page \<Rightarrow> outcome" where
  "populate_entries B [] st = Completed st"
| "populate_entries B ((section, items) # rest) st =
     (case populate_entry B section items st of
        Completed st1 \<Rightarrow> populate_entries B rest st1
      | Threw e st1 \<Rightarrow> Threw e st1
      | Unmodelled st1 \<Rightarrow> Unmodelled st1)"

definition collapse_aria :: "expand_btn \<Rightarrow> expand_btn" where
  "collapse_aria btn = btn\<lparr>aria_expanded := Some ''false''\<rparr>"

definition reset_expand_btns :: "page \<Rightarrow> page" where
  "reset_expand_btns st =
     st\<lparr>grids := (\<lambda>k. map_option (\<lambda>g. g\<lparr>btns := map collapse_aria (btns g)\<rparr>) (grids st k)),
        other_btns := map collapse_aria (other_btns st)\<rparr>"

text \<open>The last two lines of \<open>populateGrids\<close>: the fragment without its first character,
  or the default when that is empty; then the default unless it is a section identifier.\<close>

definition initial_section :: "page \<Rightarrow> string" where
  "initial_section st =
     (let h = (let h0 = drop 1 (hash (location st))
               in if h0 \<noteq> [] then h0 else DEFAULT_SECTION)
      in if h \<in> set SECTION_IDS then h else DEFAULT_SECTION)"

definition populateGrids :: "browser \<Rightarrow> page \<Rightarrow> outcome" where
  "populateGrids B st =
     (if \<not> js_truthy (contentData st) \<or> js_typeof (contentData st) \<noteq> ''object''
      then Completed st
      else case populate_entries B (Object_entries (contentData st)) st of
             Completed st1 \<Rightarrow>
               let st2 = reset_expand_btns st1
               in showSection B (initial_section st2) False st2
           | Threw e st1 \<Rightarrow> Threw e st1
           | Unmodelled st1 \<Rightarrow> Unmodelled st1)"

text \<open>
  How the fetch of \<open>generated_content.json\<close> settles: the promise rejects, or a response
  arrives with its \<open>ok\<close> flag, its status text and what \<open>res.json()\<close> settles to.
\<close>

datatype fetch_result =
    Fetch_rejected js_error
  | Response bool string "js_error + json"

definition console_error :: "js_error \<Rightarrow> page \<Rightarrow> page" where
  "console_error e st = st\<lparr>console := console st @ [e]\<rparr>"

text \<open>\<open>loadContent\<close>, from the page at the moment the fetch has settled (nothing is
  written before). An error thrown inside the \<open>try\<close> block is logged and swallowed.\<close>

definition loadContent :: "browser \<Rightarrow> fetch_result \<Rightarrow> page \<Rightarrow> outcome" where
  "loadContent B r st =
     (case r of
        Fetch_rejected e \<Rightarrow> Completed (console_error e st)
      | Response ok statusText body \<Rightarrow>
          if \<not> ok then Completed (console_error (Error statusText) st)
          else (case body of
                  Inl e \<Rightarrow> Completed (console_error e st)
                | Inr v \<Rightarrow>
                    (case populateGrids B (st\<lparr>contentData := v\<rparr>) of
                       Completed st' \<Rightarrow> Completed st'
                     | Threw e st' \<Rightarrow> Completed (console_error e st')
                     | Unmodelled st' \<Rightarrow> Unmodelled st')))"

text \<open>The failures of the fetch: a rejection, a status that is not a success, a body
  that does not parse.\<close>

definition fetch_failed :: "fetch_result \<Rightarrow> bool" where
  "fetch_failed r =
     (case r of Fetch_rejected e \<Rightarrow> True | Response ok statusText body \<Rightarrow> \<not> ok \<or> isl body)"

text \<open>The error a failed fetch leaves in the \<open>catch\<close> block.\<close>

definition fetch_error :: "fetch_result \<Rightarrow> js_error" where
  "fetch_error r =
     (case r of
        Fetch_rejected e \<Rightarrow> e
      | Response ok statusText body \<Rightarrow>
          if \<not> ok then Error statusText else (case body of Inl e \<Rightarrow> e | Inr v \<Rightarrow> SyntaxError))"

subsection \<open>Modal\<close>

text \<open>Assigning a property of \<open>null\<close> throws a \<open>TypeError\<close>; \<open>?.\<close> skips the call.\<close>

definition openModal :: "string \<Rightarrow> string \<Rightarrow> page \<Rightarrow> outcome" where
  "openModal s title st =
     (case (modal st, modalImg st) of
        (Some m, Some img) \<Rightarrow>
          let st1 = st\<lparr>modalImg :=
                      Some (img\<lparr>src := s, alt := (if title \<noteq> [] then title else ''Image'')\<rparr>)\<rparr>
          in (case modalCaption st1 of
                None \<Rightarrow> Threw TypeError st1
              | Some c \<Rightarrow>
                  Completed
                    (st1\<lparr>modalCaption := Some (if title \<noteq> [] then title else []),
                         modal := Some (m\<lparr>modal_hidden := False,
                                          close_focused :=
                                            map_option (\<lambda>f. True) (close_focused m)\<rparr>),
                         body_overflow := ''hidden''\<rparr>))
      | _ \<Rightarrow> Completed st)"

definition closeModal :: "page \<Rightarrow> page" where
  "closeModal st =
     (case modal st of
        None \<Rightarrow> st
      | Some m \<Rightarrow> st\<lparr>modal := Some (m\<lparr>modal_hidden := True\<rparr>), body_overflow := []\<rparr>)"

subsection \<open>Card expand and collapse\<close>

definition toggleResource :: "expand_btn \<Rightarrow> expand_btn" where
  "toggleResource btn =
     (case fullEl btn of
        None \<Rightarrow> btn
      | Some d \<Rightarrow>
          let isExpanded = (d = ''block'')
          in if isExpanded then
               btn\<lparr>fullEl := Some ''none'',
                   textContent := ''Read More'',
                   shortEl := map_option (\<lambda>x. ''block'') (shortEl btn),
                   card_el := map_option (\<lambda>cs. cs - {''is-expanded''}) (card_el btn),
                   aria_expanded := Some ''false''\<rparr>
             else
               btn\<lparr>fullEl := Some ''block'',
                   textContent := ''Read Less'',
                   shortEl := map_option (\<lambda>x. ''none'') (shortEl btn),
                   card_el := map_option (insert ''is-expanded'') (card_el btn),
                   aria_expanded := Some ''true''\<rparr>)"

text \<open>The test \<open>toggleResource\<close> makes: a card is collapsed unless the inline display of
  its full text is \<open>block\<close>.\<close>

definition collapsed :: "expand_btn \<Rightarrow> bool" where
  "collapsed btn = (case fullEl btn of None \<Rightarrow> False | Some d \<Rightarrow> d \<noteq> ''block'')"

subsection \<open>A sample page\<close>

definition sample_browser :: browser where
  "sample_browser =
     \<lparr>parse_btns = (\<lambda>html. []),
      parse_url = (\<lambda>u. if take 2 u = ''//'' then None
                        else Some \<lparr>pathname = takeWhile (\<lambda>c. c \<noteq> CHR ''#'') u, search = [],
                                   hash = dropWhile (\<lambda>c. c \<noteq> CHR ''#'') u\<rparr>)\<rparr>"

definition sample_btn :: expand_btn where
  "sample_btn =
     \<lparr>card_el = Some {''resource-card''}, shortEl = Some [], fullEl = Some ''none'',
      textContent = ''Read More'', aria_expanded = Some ''false''\<rparr>"

definition sample_page :: page where
  "sample_page =
     \<lparr>contentData = JNull,
      grids = [''compute'' \<mapsto> \<lparr>innerHTML = ''<p>old</p>'', btns = []\<rparr>,
               ''storage'' \<mapsto> \<lparr>innerHTML = [], btns = [sample_btn]\<rparr>,
               ''cost'' \<mapsto> \<lparr>innerHTML = ''<p>kept</p>'', btns = []\<rparr>],
      other_btns = [],
      blocks = (\<lambda>k. if k \<in> set (map block_id SECTION_IDS)
                      then Some \<lparr>classes = {''section''}, hidden = (k \<noteq> block_id ''devops'')\<rparr>
                      else None),
      nav = Some (\<lambda>k. if k \<in> set SECTION_IDS
                       then Some \<lparr>classes = {''nav-link''}, hidden = False\<rparr> else None),
      main = Some 120,
      location = \<lparr>pathname = ''/index.html'', search = [], hash = ''#storage''\<rparr>,
      history_back = [], history_forward = [],
      modal = Some \<lparr>modal_hidden = True, close_focused = Some False\<rparr>,
      modalImg = Some \<lparr>src = [], alt = []\<rparr>,
      modalCaption = Some [],
      body_overflow = [],
      console = []\<rparr>"

text \<open>The sample page without the block of \<open>compute\<close>, its nav link active.\<close>

definition orphan_link_page :: page where
  "orphan_link_page =
     sample_page\<lparr>blocks := (blocks sample_page)(block_id ''compute'' := None),
                 nav := Some [''compute'' \<mapsto> \<lparr>classes = {''nav-link'', ''active''}, hidden = False\<rparr>]\<rparr>"



text \<open>The sample page after a hash change to \<open>#bogus\<close>.\<close>

definition bogus_page :: page where
  "bogus_page =
     sample_page\<lparr>location := \<lparr>pathname = ''/index.html'', search = [], hash = ''#bogus''\<rparr>\<rparr>"

text \<open>The sample page without the caption element of the modal.\<close>

definition captionless_page :: page where
  "captionless_page = sample_page\<lparr>modalCaption := None\<rparr>"





text \<open>The sample page at a path that begins with two slashes.\<close>

definition slashes_page :: page where
  "slashes_page =
     sample_page\<lparr>location := \<lparr>pathname = ''//foo/index.html'', search = [], hash = []\<rparr>\<rparr>"

text \<open>The sample card with the short text displayed inline.\<close>

definition folded_btn :: expand_btn where
  "folded_btn = sample_btn\<lparr>shortEl := Some ''block''\<rparr>"

section \<open>Properties\<close>

subsection \<open>Showing a section\<close>

lemma block_id_inj [simp]: "(block_id a = block_id b) = (a = b)"
  by (simp add: block_id_def)

lemma show_step_blocks:
  "blocks (show_step s x st) k =
     (case blocks st k of
        None \<Rightarrow> None
      | Some b \<Rightarrow>
          if k = block_id x
          then Some (b\<lparr>classes := classList_toggle ''is-visible'' (x = s) (classes b),
                       hidden := x \<noteq> s\<rparr>)
          else Some b)"
  by (auto simp: show_step_def set_nav_link_def Let_def split: option.splits)

lemma show_step_nav:
  "nav_querySelector (show_step s x st) k =
     (case nav_querySelector st k of
        None \<Rightarrow> None
      | Some l \<Rightarrow>
          if k = x \<and> blocks st (block_id x) \<noteq> None
          then Some (l\<lparr>classes := classList_toggle ''active'' (x = s) (classes l)\<rparr>)
          else Some l)"
  by (auto simp: show_step_def set_nav_link_def nav_querySelector_def Let_def split: option.splits)

lemma show_step_nav_None: "(nav (show_step s x st) = None) = (nav st = None)"
  by (auto simp: show_step_def set_nav_link_def nav_querySelector_def Let_def split: option.splits)

lemma show_step_frame:
  "contentData (show_step s x st) = contentData st"
  "grids (show_step s x st) = grids st"
  "other_btns (show_step s x st) = other_btns st"
  "main (show_step s x st) = main st"
  "location (show_step s x st) = location st"
  "history_back (show_step s x st) = history_back st"
  "history_forward (show_step s x st) = history_forward st"
  "modal (show_step s x st) = modal st"
  "modalImg (show_step s x st) = modalImg st"
  "modalCaption (show_step s x st) = modalCaption st"
  "body_overflow (show_step s x st) = body_overflow st"
  "console (show_step s x st) = console st"
  by (auto simp: show_step_def set_nav_link_def Let_def split: option.splits)

lemma classList_toggle_idem:
  "classList_toggle t v (classList_toggle t v cs) = classList_toggle t v cs"
  by (auto simp: classList_toggle_def)

lemma fold_show_step_blocks:
  "blocks (fold (show_step s) ids st) k =
     (case blocks st k of
        None \<Rightarrow> None
      | Some b \<Rightarrow>
          if k \<in> block_id ` set ids
          then Some (b\<lparr>classes := classList_toggle ''is-visible'' (k = block_id s) (classes b),
                       hidden := k \<noteq> block_id s\<rparr>)
          else Some b)"
proof (induction ids arbitrary: st)
  case Nil
  show ?case by (simp split: option.splits)
next
  case (Cons x xs)
  show ?case
    by (simp add: Cons.IH show_step_blocks classList_toggle_idem split: option.splits)
qed

lemma fold_show_step_nav:
  "nav_querySelector (fold (show_step s) ids st) k =
     (case nav_querySelector st k of
        None \<Rightarrow> None
      | Some l \<Rightarrow>
          if k \<in> set ids \<and> blocks st (block_id k) \<noteq> None
          then Some (l\<lparr>classes := classList_toggle ''active'' (k = s) (classes l)\<rparr>)
          else Some l)"
proof (induction ids arbitrary: st)
  case Nil
  show ?case by (simp split: option.splits)
next
  case (Cons x xs)
  show ?case
    by (simp add: Cons.IH show_step_nav show_step_blocks classList_toggle_idem
          split: option.splits)
qed

lemma fold_show_step_nav_None: "(nav (fold (show_step s) ids st) = None) = (nav st = None)"
  by (induction ids arbitrary: st) (simp_all add: show_step_nav_None)

lemma fold_show_step_frame:
  "contentData (fold (show_step s) ids st) = contentData st"
  "grids (fold (show_step s) ids st) = grids st"
  "other_btns (fold (show_step s) ids st) = other_btns st"
  "main (fold (show_step s) ids st) = main st"
  "location (fold (show_step s) ids st) = location st"
  "history_back (fold (show_step s) ids st) = history_back st"
  "history_forward (fold (show_step s) ids st) = history_forward st"
  "modal (fold (show_step s) ids st) = modal st"
  "modalImg (fold (show_step s) ids st) = modalImg st"
  "modalCaption (fold (show_step s) ids st) = modalCaption st"
  "body_overflow (fold (show_step s) ids st) = body_overflow st"
  "console (fold (show_step s) ids st) = console st"
  by (induction ids arbitrary: st) (simp_all add: show_step_frame)

lemma showSection_page:
  "page_of (showSection B s u st) =
     (let st1 = fold (show_step s) SECTION_IDS st
      in if u \<and> hash (location st) \<noteq> ''#'' @ s
         then (case parse_url B (pathname (location st) @ ''#'' @ s) of
                 None \<Rightarrow> st1
               | Some l \<Rightarrow>
                   if main st \<noteq> None \<and> s \<noteq> [] then st1\<lparr>location := l, main := Some 0\<rparr>
                   else st1\<lparr>location := l\<rparr>)
         else if main st \<noteq> None \<and> s \<noteq> [] then st1\<lparr>main := Some 0\<rparr> else st1)"
  by (simp add: showSection_def replaceState_def Let_def fold_show_step_frame
        split: option.splits)

lemma showSection_blocks:
  "blocks (page_of (showSection B s u st)) = blocks (fold (show_step s) SECTION_IDS st)"
  by (simp add: showSection_page Let_def split: option.splits)

lemma showSection_nav:
  "nav (page_of (showSection B s u st)) = nav (fold (show_step s) SECTION_IDS st)"
  by (simp add: showSection_page Let_def split: option.splits)


lemma showSection_block:
  "blocks (page_of (showSection B s u st)) (block_id k) =
     (case blocks st (block_id k) of
        None \<Rightarrow> None
      | Some b \<Rightarrow>
          if k \<in> set SECTION_IDS
          then Some (b\<lparr>classes := classList_toggle ''is-visible'' (k = s) (classes b),
                       hidden := k \<noteq> s\<rparr>)
          else Some b)"
  by (auto simp: showSection_blocks fold_show_step_blocks split: option.splits)

lemma showSection_link:
  "nav_querySelector (page_of (showSection B s u st)) k =
     (case nav_querySelector st k of
        None \<Rightarrow> None
      | Some l \<Rightarrow>
          if k \<in> set SECTION_IDS \<and> blocks st (block_id k) \<noteq> None
          then Some (l\<lparr>classes := classList_toggle ''active'' (k = s) (classes l)\<rparr>)
          else Some l)"
  using fold_show_step_nav [of s SECTION_IDS st k]
  by (simp add: nav_querySelector_def showSection_nav)

lemma SECTION_IDS_distinct: "distinct SECTION_IDS"
  by (simp add: SECTION_IDS_def)

lemma filter_eq_single: "distinct xs \<Longrightarrow> s \<in> set xs \<Longrightarrow> filter (\<lambda>k. k = s) xs = [s]"
  by (induction xs) (auto simp: filter_empty_conv)

lemma visible_sections_showSection:
  assumes "\<forall>k \<in> set SECTION_IDS. blocks st (block_id k) \<noteq> None"
  shows "visible_sections (page_of (showSection B s u st)) = filter (\<lambda>k. k = s) SECTION_IDS"
  unfolding visible_sections_def
  by (rule filter_cong) (use assms in \<open>auto simp: showSection_block split: option.splits\<close>)

text \<open>
  Claim C1. For a section identifier \<open>s\<close> of \<open>SECTION_IDS\<close>, on a page where the block
  of every section exists, \<open>showSection s u\<close> (for either \<open>u\<close>) leaves exactly one section
  visible, and it is \<open>s\<close>: every other block is hidden and has lost the \<open>is-visible\<close>
  class. This is the page the call leaves, also when \<open>replaceState\<close> throws after the
  loop.
\<close>

theorem showSection_exactly_one_visible:
  assumes "s \<in> set SECTION_IDS"
    and "\<forall>k \<in> set SECTION_IDS. blocks st (block_id k) \<noteq> None"
  shows "visible_sections (page_of (showSection B s u st)) = [s] \<and>
         (\<forall>k \<in> set SECTION_IDS.
            \<exists>b. blocks (page_of (showSection B s u st)) (block_id k) = Some b \<and>
              hidden b = (k \<noteq> s) \<and> (''is-visible'' \<in> classes b) = (k = s))"
proof
  show "visible_sections (page_of (showSection B s u st)) = [s]"
    using assms by (simp add: visible_sections_showSection filter_eq_single SECTION_IDS_distinct)
next
  show "\<forall>k \<in> set SECTION_IDS.
          \<exists>b. blocks (page_of (showSection B s u st)) (block_id k) = Some b \<and>
            hidden b = (k \<noteq> s) \<and> (''is-visible'' \<in> classes b) = (k = s)"
    using assms(2) by (auto simp: showSection_block classList_toggle_def split: option.splits)
qed

theorem showSection_exactly_one_visible_witness:
  "''storage'' \<in> set SECTION_IDS \<and>
   list_all (\<lambda>k. blocks sample_page (block_id k) \<noteq> None) SECTION_IDS \<and>
   visible_sections (page_of (showSection sample_browser ''storage'' True sample_page)) =
     [''storage'']"
proof -
  have a: "''storage'' \<in> set SECTION_IDS" by (simp add: SECTION_IDS_def)
  have b: "\<forall>k \<in> set SECTION_IDS. blocks sample_page (block_id k) \<noteq> None"
    by (simp add: sample_page_def)
  show ?thesis
    using a b showSection_exactly_one_visible [OF a b, of sample_browser True]
    by (simp add: list_all_iff)
qed

text \<open>
  Claim C6. \<open>showSection\<close> is idempotent on the visibility state: a second call with
  the same arguments leaves every section block (its \<open>hidden\<close> flag and classes) and
  every nav link (its \<open>active\<close> class) as the first call left them. This holds for every
  identifier, recognized or not.
\<close>

theorem showSection_idempotent:
  "blocks (page_of (showSection B s u (page_of (showSection B s u st)))) =
     blocks (page_of (showSection B s u st)) \<and>
   nav (page_of (showSection B s u (page_of (showSection B s u st)))) =
     nav (page_of (showSection B s u st))"
proof
  show "blocks (page_of (showSection B s u (page_of (showSection B s u st)))) =
     blocks (page_of (showSection B s u st))"
    by (rule ext)
      (simp add: showSection_blocks fold_show_step_blocks classList_toggle_idem
         split: option.splits)
next
  let ?a = "page_of (showSection B s u st)"
  let ?b = "page_of (showSection B s u ?a)"
  have none: "(nav ?b = None) = (nav ?a = None)"
    by (simp add: showSection_nav fold_show_step_nav_None)
  have link: "nav_querySelector ?b k = nav_querySelector ?a k" for k
    by (simp add: showSection_link showSection_block classList_toggle_idem
          split: option.splits)
  show "nav ?b = nav ?a"
  proof (cases "nav ?a")
    case None
    with none show ?thesis by simp
  next
    case (Some la)
    with none obtain lb where lb: "nav ?b = Some lb" by auto
    have "lb k = la k" for k
      using link [of k] Some lb by (simp add: nav_querySelector_def)
    then have "lb = la" by (rule ext)
    with Some lb show ?thesis by simp
  qed
qed

text \<open>
  Claim C9. \<open>showSection\<close> never adds a history entry: the entries behind and ahead of
  the current one are untouched. \<open>replaceState\<close> is called exactly when \<open>updateHash\<close> is
  true and the fragment differs from \<open>#id\<close>, with the URL made of the path, \<open>#\<close> and
  the identifier: the current entry is replaced by what that URL resolves to, or, when
  it does not resolve to a URL of the document's origin, the call throws a
  \<open>SecurityError\<close> and the location stays. When \<open>updateHash\<close> is false or the fragment
  is \<open>#id\<close> already, the call returns with the location unchanged.
\<close>

theorem showSection_history:
  "history_back (page_of (showSection B s u st)) = history_back st \<and>
   history_forward (page_of (showSection B s u st)) = history_forward st \<and>
   location (page_of (showSection B s u st)) =
     (if u \<and> hash (location st) \<noteq> ''#'' @ s
      then (case parse_url B (pathname (location st) @ ''#'' @ s) of
              None \<Rightarrow> location st
            | Some l \<Rightarrow> l)
      else location st) \<and>
   showSection B s u st =
     (if u \<and> hash (location st) \<noteq> ''#'' @ s \<and>
         parse_url B (pathname (location st) @ ''#'' @ s) = None
      then Threw SecurityError (page_of (showSection B s u st))
      else Completed (page_of (showSection B s u st)))"
proof (intro conjI)
  show "history_back (page_of (showSection B s u st)) = history_back st"
    by (simp add: showSection_page Let_def fold_show_step_frame split: option.splits)
  show "history_forward (page_of (showSection B s u st)) = history_forward st"
    by (simp add: showSection_page Let_def fold_show_step_frame split: option.splits)
  show "location (page_of (showSection B s u st)) =
     (if u \<and> hash (location st) \<noteq> ''#'' @ s
      then (case parse_url B (pathname (location st) @ ''#'' @ s) of
              None \<Rightarrow> location st
            | Some l \<Rightarrow> l)
      else location st)"
    by (simp add: showSection_page Let_def fold_show_step_frame split: option.splits)
  show "showSection B s u st =
     (if u \<and> hash (location st) \<noteq> ''#'' @ s \<and>
         parse_url B (pathname (location st) @ ''#'' @ s) = None
      then Threw SecurityError (page_of (showSection B s u st))
      else Completed (page_of (showSection B s u st)))"
    by (simp add: showSection_def replaceState_def Let_def fold_show_step_frame
          split: option.splits)
qed

text \<open>On the sample page at a path with two leading slashes the sample browser refuses
  the URL: the sections are switched, the location and the scroll position stay.\<close>

lemma showSection_refused:
  "showSection sample_browser ''cost'' True slashes_page =
     Threw SecurityError (fold (show_step ''cost'') SECTION_IDS slashes_page) \<and>
   location (fold (show_step ''cost'') SECTION_IDS slashes_page) = location slashes_page \<and>
   main (fold (show_step ''cost'') SECTION_IDS slashes_page) = Some 120"
  by (simp add: showSection_def replaceState_def Let_def fold_show_step_frame
        slashes_page_def sample_browser_def sample_page_def)

text \<open>
  Claim C4. A hash change to a fragment that is not a section identifier changes
  nothing: the handler returns the page as it was (\<open>showSection\<close> is not called, no
  fallback to the default section).
\<close>

theorem on_hashchange_unrecognized:
  "drop 1 (hash (location st)) \<notin> set SECTION_IDS \<Longrightarrow> on_hashchange B st = Completed st"
  by (simp add: on_hashchange_def Let_def)

theorem on_hashchange_unrecognized_witness:
  "drop 1 (hash (location bogus_page)) \<notin> set SECTION_IDS \<and>
   on_hashchange sample_browser bogus_page = Completed bogus_page"
proof -
  have a: "drop 1 (hash (location bogus_page)) \<notin> set SECTION_IDS"
    by (simp add: bogus_page_def SECTION_IDS_def)
  show ?thesis
    using a on_hashchange_unrecognized [OF a, of sample_browser] by simp
qed

text \<open>
  Claim C10, as amended. For an identifier outside \<open>SECTION_IDS\<close>, \<open>showSection\<close> hides
  every existing section block and drops its \<open>is-visible\<close> class, so no section is
  visible; it removes \<open>active\<close> from the nav link of every section whose block exists.
  The link of a section whose block is missing, and a link of any other
  \<open>data-section\<close> value, is left as it was: the link is updated inside the test for
  the block.
\<close>

theorem showSection_unrecognized:
  assumes "s \<notin> set SECTION_IDS"
  shows "visible_sections (page_of (showSection B s u st)) = [] \<and>
         (\<forall>k \<in> set SECTION_IDS. \<forall>b. blocks (page_of (showSection B s u st)) (block_id k) = Some b \<longrightarrow>
            hidden b \<and> ''is-visible'' \<notin> classes b) \<and>
         (\<forall>k \<in> set SECTION_IDS. \<forall>l. blocks st (block_id k) \<noteq> None \<longrightarrow>
            nav_querySelector (page_of (showSection B s u st)) k = Some l \<longrightarrow> ''active'' \<notin> classes l) \<and>
         (\<forall>k. k \<notin> set SECTION_IDS \<or> blocks st (block_id k) = None \<longrightarrow>
            nav_querySelector (page_of (showSection B s u st)) k = nav_querySelector st k)"
proof (intro conjI)
  show "visible_sections (page_of (showSection B s u st)) = []"
    using assms
    by (auto simp: visible_sections_def filter_empty_conv showSection_block
          split: option.splits if_splits)
next
  show "\<forall>k \<in> set SECTION_IDS. \<forall>b. blocks (page_of (showSection B s u st)) (block_id k) = Some b \<longrightarrow>
            hidden b \<and> ''is-visible'' \<notin> classes b"
    using assms
    by (auto simp: showSection_block classList_toggle_def split: option.splits if_splits)
next
  show "\<forall>k \<in> set SECTION_IDS. \<forall>l. blocks st (block_id k) \<noteq> None \<longrightarrow>
            nav_querySelector (page_of (showSection B s u st)) k = Some l \<longrightarrow> ''active'' \<notin> classes l"
    using assms
    by (auto simp: showSection_link classList_toggle_def split: option.splits if_splits)
next
  show "\<forall>k. k \<notin> set SECTION_IDS \<or> blocks st (block_id k) = None \<longrightarrow>
            nav_querySelector (page_of (showSection B s u st)) k = nav_querySelector st k"
    by (auto simp: showSection_link split: option.splits)
qed

text \<open>
  The claim as first stated (the active indicator removed from every nav link) fails on
  a page whose \<open>compute\<close> link is active while the block \<open>block-compute\<close> is missing:
  the link is still active after \<open>showSection ''bogus''\<close>.
\<close>

theorem showSection_unrecognized_counterexample:
  "''bogus'' \<notin> set SECTION_IDS \<and>
   nav_querySelector (page_of (showSection sample_browser ''bogus'' True orphan_link_page)) ''compute'' =
     Some \<lparr>classes = {''nav-link'', ''active''}, hidden = False\<rparr>"
  unfolding showSection_link
  by (simp add: orphan_link_page_def nav_querySelector_def SECTION_IDS_def)

theorem showSection_unrecognized_witness:
  "''bogus'' \<notin> set SECTION_IDS \<and>
   visible_sections (page_of (showSection sample_browser ''bogus'' True sample_page)) = []"
proof -
  have a: "''bogus'' \<notin> set SECTION_IDS" by (simp add: SECTION_IDS_def)
  show ?thesis using a showSection_unrecognized [OF a, of sample_browser True sample_page] by simp
qed

subsection \<open>Loading the content\<close>





























text \<open>
  Claim C5. When the fetch fails (the promise rejects, the status is not a success, or
  the body does not parse), \<open>loadContent\<close> returns normally with the error appended to
  the console and nothing else changed: \<open>contentData\<close> and every grid are as before and
  \<open>populateGrids\<close> has not run. And \<open>populateGrids\<close> returns the page unchanged when
  \<open>contentData\<close> is falsy (\<open>null\<close>) or not of type \<open>object\<close>.
\<close>

theorem loadContent_failure:
  "(fetch_failed r \<longrightarrow>
      loadContent B r st = Completed (st\<lparr>console := console st @ [fetch_error r]\<rparr>)) \<and>
   (\<not> js_truthy (contentData st) \<or> js_typeof (contentData st) \<noteq> ''object'' \<longrightarrow>
      populateGrids B st = Completed st)"
proof
  show "fetch_failed r \<longrightarrow>
      loadContent B r st = Completed (st\<lparr>console := console st @ [fetch_error r]\<rparr>)"
    by (cases r)
      (auto simp: fetch_failed_def fetch_error_def loadContent_def console_error_def
         split: sum.splits)
next
  show "\<not> js_truthy (contentData st) \<or> js_typeof (contentData st) \<noteq> ''object'' \<longrightarrow>
      populateGrids B st = Completed st"
    by (simp add: populateGrids_def)
qed

theorem loadContent_failure_witness:
  "fetch_failed (Response False ''Not Found'' (Inr JNull)) \<and>
   loadContent sample_browser (Response False ''Not Found'' (Inr JNull)) sample_page =
     Completed (sample_page\<lparr>console := console sample_page @ [Error ''Not Found'']\<rparr>) \<and>
   js_typeof (JStr ''text'') \<noteq> ''object'' \<and>
   populateGrids sample_browser (sample_page\<lparr>contentData := JStr ''text''\<rparr>) =
     Completed (sample_page\<lparr>contentData := JStr ''text''\<rparr>)"
proof -
  have a: "fetch_failed (Response False ''Not Found'' (Inr JNull))"
    by (simp add: fetch_failed_def)
  have e: "fetch_error (Response False ''Not Found'' (Inr JNull)) = Error ''Not Found''"
    by (simp add: fetch_error_def)
  have b: "js_typeof (contentData (sample_page\<lparr>contentData := JStr ''text''\<rparr>)) \<noteq> ''object''"
    by simp
  from loadContent_failure
    [of "Response False ''Not Found'' (Inr JNull)" sample_browser sample_page]
  have 1: "loadContent sample_browser (Response False ''Not Found'' (Inr JNull)) sample_page =
     Completed (sample_page\<lparr>console := console sample_page @ [Error ''Not Found'']\<rparr>)"
    using a e by simp
  from loadContent_failure
    [of _ sample_browser "sample_page\<lparr>contentData := JStr ''text''\<rparr>"] b
  have 2: "populateGrids sample_browser (sample_page\<lparr>contentData := JStr ''text''\<rparr>) =
     Completed (sample_page\<lparr>contentData := JStr ''text''\<rparr>)"
    by blast
  from a 1 2 show ?thesis by simp
qed

subsection \<open>Cards\<close>

lemma toggleResource_collapsed:
  "collapsed btn \<Longrightarrow>
   toggleResource btn =
     btn\<lparr>fullEl := Some ''block'', textContent := ''Read Less'',
         shortEl := map_option (\<lambda>x. ''none'') (shortEl btn),
         card_el := map_option (insert ''is-expanded'') (card_el btn),
         aria_expanded := Some ''true''\<rparr>"
  by (auto simp: collapsed_def toggleResource_def split: option.splits)

text \<open>
  Claim C7, as amended. For a collapsed card (the inline display of the full text is not
  \<open>block\<close>), one call of \<open>toggleResource\<close> sets the button text to \<open>Read Less\<close> and
  \<open>aria-expanded\<close> to \<open>true\<close>, shows the full text (display \<open>block\<close>), hides the short
  text (display \<open>none\<close>) and adds \<open>is-expanded\<close> to the card. A second call writes the
  collapsed values: full text \<open>none\<close>, short text \<open>block\<close>, \<open>Read More\<close>,
  \<open>aria-expanded\<close> \<open>false\<close>, \<open>is-expanded\<close> removed. Two calls are the identity on
  the card when it already carried these values, as it does after any earlier
  collapse.
\<close>

theorem toggleResource_round_trip:
  assumes "collapsed btn"
  shows "textContent (toggleResource btn) = ''Read Less'' \<and>
     aria_expanded (toggleResource btn) = Some ''true'' \<and>
     fullEl (toggleResource btn) = Some ''block'' \<and>
     shortEl (toggleResource btn) = map_option (\<lambda>x. ''none'') (shortEl btn) \<and>
     card_el (toggleResource btn) = map_option (insert ''is-expanded'') (card_el btn) \<and>
     toggleResource (toggleResource btn) =
       btn\<lparr>fullEl := Some ''none'', textContent := ''Read More'',
           shortEl := map_option (\<lambda>x. ''block'') (shortEl btn),
           card_el := map_option (\<lambda>cs. cs - {''is-expanded''}) (card_el btn),
           aria_expanded := Some ''false''\<rparr> \<and>
     (fullEl btn = Some ''none'' \<and> textContent btn = ''Read More'' \<and>
      aria_expanded btn = Some ''false'' \<and>
      (shortEl btn = None \<or> shortEl btn = Some ''block'') \<and>
      (\<forall>cs. card_el btn = Some cs \<longrightarrow> ''is-expanded'' \<notin> cs) \<longrightarrow>
      toggleResource (toggleResource btn) = btn)"
proof -
  have twice: "toggleResource (toggleResource btn) =
       btn\<lparr>fullEl := Some ''none'', textContent := ''Read More'',
           shortEl := map_option (\<lambda>x. ''block'') (shortEl btn),
           card_el := map_option (\<lambda>cs. cs - {''is-expanded''}) (card_el btn),
           aria_expanded := Some ''false''\<rparr>"
    by (simp add: toggleResource_collapsed [OF assms])
      (simp add: toggleResource_def option.map_comp comp_def)
  have restore: "toggleResource (toggleResource btn) = btn"
    if "fullEl btn = Some ''none''" "textContent btn = ''Read More''"
      "aria_expanded btn = Some ''false''" "shortEl btn = None \<or> shortEl btn = Some ''block''"
      "\<forall>cs. card_el btn = Some cs \<longrightarrow> ''is-expanded'' \<notin> cs"
  proof -
    have s: "map_option (\<lambda>x. ''block'') (shortEl btn) = shortEl btn"
      using that(4) by auto
    have c: "map_option (\<lambda>cs. cs - {''is-expanded''}) (card_el btn) = card_el btn"
      using that(5) by (cases "card_el btn") auto
    show ?thesis unfolding twice s c using that(1,2,3) by simp
  qed
  show ?thesis
    using twice restore by (simp add: toggleResource_collapsed [OF assms])
qed

text \<open>
  The claim as first stated (the original state restored exactly, display values
  included) fails for a collapsed card whose short text has no inline display, as in
  markup that sets none: after two calls its display is \<open>block\<close>.
\<close>

theorem toggleResource_round_trip_counterexample:
  "collapsed sample_btn \<and> textContent sample_btn = ''Read More'' \<and>
   aria_expanded sample_btn = Some ''false'' \<and> fullEl sample_btn = Some ''none'' \<and>
   shortEl sample_btn = Some [] \<and>
   shortEl (toggleResource (toggleResource sample_btn)) = Some ''block'' \<and>
   toggleResource (toggleResource sample_btn) \<noteq> sample_btn"
  by (simp add: sample_btn_def collapsed_def toggleResource_def)

theorem toggleResource_round_trip_witness:
  "collapsed folded_btn \<and>
   textContent (toggleResource folded_btn) = ''Read Less'' \<and>
   aria_expanded (toggleResource folded_btn) = Some ''true'' \<and>
   fullEl (toggleResource folded_btn) = Some ''block'' \<and>
   shortEl (toggleResource folded_btn) = Some ''none'' \<and>
   toggleResource (toggleResource folded_btn) = folded_btn"
proof -
  have a: "collapsed folded_btn" by (simp add: folded_btn_def sample_btn_def collapsed_def)
  have pre: "fullEl folded_btn = Some ''none''" "textContent folded_btn = ''Read More''"
    "aria_expanded folded_btn = Some ''false''" "shortEl folded_btn = Some ''block''"
    "card_el folded_btn = Some {''resource-card''}"
    by (simp_all add: folded_btn_def sample_btn_def)
  from toggleResource_round_trip [OF a] have
    "textContent (toggleResource folded_btn) = ''Read Less''"
    "aria_expanded (toggleResource folded_btn) = Some ''true''"
    "fullEl (toggleResource folded_btn) = Some ''block''"
    "shortEl (toggleResource folded_btn) = map_option (\<lambda>x. ''none'') (shortEl folded_btn)"
    "fullEl folded_btn = Some ''none'' \<and> textContent folded_btn = ''Read More'' \<and>
      aria_expanded folded_btn = Some ''false'' \<and>
      (shortEl folded_btn = None \<or> shortEl folded_btn = Some ''block'') \<and>
      (\<forall>cs. card_el folded_btn = Some cs \<longrightarrow> ''is-expanded'' \<notin> cs) \<longrightarrow>
      toggleResource (toggleResource folded_btn) = folded_btn"
    by blast+
  with a pre show ?thesis by simp
qed

subsection \<open>The modal\<close>

text \<open>
  Claim C8. The guard of \<open>openModal\<close> tests the modal and its image, and the close control
  is reached through \<open>?.\<close>, but the caption is written without a test: on a page with
  the modal and the image and no caption element, \<open>openModal\<close> throws a \<open>TypeError\<close>
  after it has set the source and the alternative text of the image. The claim (no
  combination of missing modal elements makes \<open>openModal\<close> throw) does not hold for
  the code.
\<close>

theorem openModal_missing_caption_throws:
  "openModal ''a.png'' ''Diagram'' captionless_page =
     Threw TypeError (captionless_page\<lparr>modalImg := Some \<lparr>src = ''a.png'', alt = ''Diagram''\<rparr>\<rparr>)"
  by (simp add: openModal_def captionless_page_def sample_page_def)

text \<open>The guards that are there: each handler returns the page or the card unchanged.\<close>

lemma openModal_guarded:
  "modal st = None \<or> modalImg st = None \<Longrightarrow> openModal s title st = Completed st"
  by (auto simp: openModal_def split: option.splits)

lemma openModal_completes:
  "modalCaption st \<noteq> None \<Longrightarrow> \<exists>st'. openModal s title st = Completed st'"
  by (auto simp: openModal_def split: option.splits)

lemma openModal_throws_iff:
  "(\<exists>e st'. openModal s title st = Threw e st') =
   (modal st \<noteq> None \<and> modalImg st \<noteq> None \<and> modalCaption st = None)"
  by (auto simp: openModal_def Let_def split: option.splits)

lemma closeModal_guarded: "modal st = None \<Longrightarrow> closeModal st = st"
  by (simp add: closeModal_def)

lemma toggleResource_guarded: "fullEl btn = None \<Longrightarrow> toggleResource btn = btn"
  by (simp add: toggleResource_def)

end
